theory Spec2Isabelle
  imports Main "HOL-Library.Word"
begin

section \<open>Data model\<close>

text \<open>
  Engine enumerations used by the reader. \<open>ERawImageFormat\<close> lists the formats the
  switch of \<open>BlockTillAllRequestsFinished\<close> names; every other engine format
  (RGBA32F, R16F, ...) is \<open>OtherRawFormat\<close> and takes the \<open>default\<close> branch.
\<close>

datatype ERawImageFormat = G8 | G16 | BGRA8 | BGRE8 | RGBA16 | RGBA16F | OtherRawFormat nat

datatype EPixelFormat =
  PF_Unknown | PF_B8G8R8A8 | PF_G8 | PF_G16 | PF_R16G16B16A16_SINT | PF_FloatRGBA | PF_BC4

text \<open>
  Modelled from the spec: \<open>FTransformImageParams\<close> and \<open>FImageReadRequest\<close> are
  declared in headers that are not part of the sources. The usage hint is folded into
  the transform parameters; the reader reads it as \<open>Request.bForUI\<close>.
\<close>

record FTransformImageParams =
  Transform_bForUI :: bool
  Transform_Other :: nat

record FImageReadRequest =
  ImageFilename :: string
  TransformParams :: FTransformImageParams

definition bForUI :: "FImageReadRequest \<Rightarrow> bool" where
  "bForUI Request = Transform_bForUI (TransformParams Request)"

text \<open>\<open>FRuntimeImageData\<close>: the decoded image (an \<open>FImage\<close>).\<close>

record FRuntimeImageData =
  SizeX :: "32 word"
  SizeY :: "32 word"
  Format :: ERawImageFormat
  RawData :: "8 word list"
  SRGB :: bool

text \<open>The device texture that \<open>RHIAsyncCreateTexture2D\<close> creates from its arguments.\<close>

record FRHITexture2D =
  RHI_SizeX :: "32 word"
  RHI_SizeY :: "32 word"
  RHI_Format :: EPixelFormat
  RHI_NumMips :: nat
  RHI_ShaderResource :: bool
  RHI_SRGB :: bool
  RHI_Mip0Data :: "8 word list"

text \<open>\<open>FRuntimeTextureResource\<close>, with the fields its constructor sets.\<close>

record FRuntimeTextureResource =
  TextureRHI :: FRHITexture2D
  Resource_SizeX :: "32 word"
  Resource_SizeY :: "32 word"
  bSRGB :: bool
  bIgnoreGammaConversions :: bool
  bGreyScaleFormat :: bool

definition NewRuntimeTextureResource :: "FRHITexture2D \<Rightarrow> FRuntimeTextureResource" where
  "NewRuntimeTextureResource RHITexture2D =
     \<lparr>TextureRHI = RHITexture2D,
      Resource_SizeX = RHI_SizeX RHITexture2D,
      Resource_SizeY = RHI_SizeY RHITexture2D,
      bSRGB = RHI_SRGB RHITexture2D,
      bIgnoreGammaConversions = (\<not> RHI_SRGB RHITexture2D),
      bGreyScaleFormat =
        (RHI_Format RHITexture2D = PF_G8 \<or> RHI_Format RHITexture2D = PF_BC4)\<rparr>"

text \<open>
  \<open>UTexture2D\<close>: the placeholder object. \<open>Dummy_Name\<close> and \<open>Dummy_PixelFormat\<close> are what
  \<open>CreateDummyTexture\<close> was called with; the platform data sizes, the texture reference
  and the resource are what the reader sets afterwards.
\<close>

record UTexture2D =
  Dummy_Name :: string
  Dummy_PixelFormat :: EPixelFormat
  PlatformData_SizeX :: "32 word"
  PlatformData_SizeY :: "32 word"
  TextureReferenceRHI :: "FRHITexture2D option"
  Resource :: "FRuntimeTextureResource option"

datatype UTextureCube = UTextureCube nat

text \<open>
  Modelled from the spec: \<open>FImageReadResult\<close> is declared in a header that is not part of
  the sources. The texture is an optional handle; a default-constructed result has no
  texture and an empty error string.
\<close>

record FImageReadResult =
  Result_ImageFilename :: string
  OutTexture :: "UTexture2D option"
  OutTextureCube :: "UTextureCube option"
  OutError :: string

definition DefaultReadResult :: FImageReadResult where
  "DefaultReadResult =
     \<lparr>Result_ImageFilename = [], OutTexture = None, OutTextureCube = None, OutError = []\<rparr>"

record FConstructTextureTask =
  Task_ImageFilename :: string
  Task_PixelFormat :: EPixelFormat

text \<open>
  \<open>URuntimeImageReader\<close>. \<open>Requests\<close> and \<open>ConstructTasks\<close> are queues (enqueue at the
  end, dequeue at the head); \<open>Results\<close> and \<open>ConstructedTextures\<close> are arrays (add at the
  end, \<open>Pop\<close> takes the last element). The two pooled events are auto-reset: a Boolean
  that says whether the event is signalled.
\<close>

record URuntimeImageReader =
  Requests :: "FImageReadRequest list"
  Results :: "FImageReadResult list"
  ConstructTasks :: "FConstructTextureTask list"
  ConstructedTextures :: "UTexture2D list"
  bCompletedWork :: bool
  bStopThread :: bool
  ThreadSemaphore :: bool
  TextureConstructedSemaphore :: bool

datatype error = PreconditionViolation | AssertionFailed | DelegateNotBound

section \<open>The reader's small operations\<close>

definition AddRequest :: "FImageReadRequest \<Rightarrow> URuntimeImageReader \<Rightarrow> URuntimeImageReader" where
  "AddRequest Request rd = rd\<lparr>Requests := Requests rd @ [Request], bCompletedWork := False\<rparr>"

text \<open>
  \<open>GetResult\<close>: \<open>ensure(Results.Num() > 0)\<close>, then \<open>Results.Pop()\<close>. Popping an empty
  array is the precondition violation.
\<close>

definition GetResult :: "URuntimeImageReader \<Rightarrow> error + (FImageReadResult \<times> URuntimeImageReader)" where
  "GetResult rd =
     (if Results rd = [] then Inl PreconditionViolation
      else Inr (last (Results rd), rd\<lparr>Results := butlast (Results rd)\<rparr>))"

definition Clear :: "URuntimeImageReader \<Rightarrow> URuntimeImageReader" where
  "Clear rd = rd\<lparr>Requests := [], Results := []\<rparr>"

definition IsWorkCompleted :: "URuntimeImageReader \<Rightarrow> bool" where
  "IsWorkCompleted rd = bCompletedWork rd"

definition Trigger :: "URuntimeImageReader \<Rightarrow> URuntimeImageReader" where
  "Trigger rd = rd\<lparr>ThreadSemaphore := True\<rparr>"

text \<open>
  \<open>Stop\<close> and \<open>Deinitialize\<close>, as far as they write the reader: \<open>Stop\<close> sets the stop flag
  and signals the worker (it then waits for the thread to end and gives the event back to
  the pool); \<open>Deinitialize\<close> is \<open>Clear\<close>, then \<open>Stop\<close>. The stop flag is set nowhere else.
\<close>

definition Stop :: "URuntimeImageReader \<Rightarrow> URuntimeImageReader" where
  "Stop rd = Trigger (rd\<lparr>bStopThread := True\<rparr>)"

definition Deinitialize :: "URuntimeImageReader \<Rightarrow> URuntimeImageReader" where
  "Deinitialize rd = Stop (Clear rd)"

section \<open>The reader's collaborators\<close>

text \<open>
  What the game thread does while the worker waits for a placeholder: it ticks the
  reader (\<open>URuntimeImageReader::Tick\<close>), or it shuts the reader down
  (\<open>URuntimeImageReader::Deinitialize\<close>).
\<close>

datatype game_thread = GameTicks | GameDeinitializes

text \<open>
  The collaborators that are not part of the sources are parameters:
  the platform macro, the decoder \<open>FRuntimeImageUtils::ImportFileAsImage\<close> (it returns
  the image data and the error string it wrote), the re-encoding
  \<open>ImageData.CopyTo(BGRAImage, BGRA8, Linear)\<close> (it returns the raw data of the BGRA8
  image), \<open>FRuntimeImageUtils::CreateDummyTexture\<close>, and the game thread's behaviour
  during the wait for the given construction task: what it does, and, when it ticks, how
  many further construction tasks its tick has handled by the time the woken worker
  reads the array of placeholders.
\<close>

record environment =
  PLATFORM_ANDROID :: bool
  ImportFileAsImage :: "string \<Rightarrow> FRuntimeImageData \<times> string"
  CopyTo_BGRA8 :: "FRuntimeImageData \<Rightarrow> 8 word list"
  CreateDummyTexture :: "string \<Rightarrow> EPixelFormat \<Rightarrow> UTexture2D"
  GameThread :: "FConstructTextureTask \<Rightarrow> game_thread"
  TickProgress :: "FConstructTextureTask \<Rightarrow> nat"

section \<open>The worker\<close>

text \<open>The switch that determines the pixel format.\<close>

fun DeterminePixelFormat :: "ERawImageFormat \<Rightarrow> bool \<Rightarrow> EPixelFormat" where
  "DeterminePixelFormat G8 ForUI = (if ForUI then PF_B8G8R8A8 else PF_G8)"
| "DeterminePixelFormat G16 ForUI = PF_G16"
| "DeterminePixelFormat BGRA8 ForUI = PF_B8G8R8A8"
| "DeterminePixelFormat BGRE8 ForUI = PF_B8G8R8A8"
| "DeterminePixelFormat RGBA16 ForUI = (if ForUI then PF_B8G8R8A8 else PF_R16G16B16A16_SINT)"
| "DeterminePixelFormat RGBA16F ForUI = PF_FloatRGBA"
| "DeterminePixelFormat (OtherRawFormat n) ForUI = PF_Unknown"

text \<open>
  \<open>URuntimeImageReader::Tick\<close>, on the game thread: while the reader is not stopped,
  every construction task becomes a placeholder and the construction event is signalled.
\<close>

function Reader_Tick :: "environment \<Rightarrow> URuntimeImageReader \<Rightarrow> URuntimeImageReader" where
  "Reader_Tick E rd =
     (if \<not> bStopThread rd then
        (case ConstructTasks rd of
           [] \<Rightarrow> rd
         | Task # rest \<Rightarrow>
             Reader_Tick E
               (rd\<lparr>ConstructTasks := rest,
                   ConstructedTextures := ConstructedTextures rd @
                     [CreateDummyTexture E (Task_ImageFilename Task) (Task_PixelFormat Task)],
                   TextureConstructedSemaphore := True\<rparr>))
      else rd)"
  by pat_completeness auto
termination
  by (relation "measure (\<lambda>(E, rd). length (ConstructTasks rd))") auto

declare Reader_Tick.simps [simp del]

text \<open>
  The first \<open>n\<close> iterations of the loop of \<open>URuntimeImageReader::Tick\<close>: each takes one
  construction task, adds its placeholder and signals the construction event.
\<close>

primrec Reader_Tick_steps ::
  "environment \<Rightarrow> nat \<Rightarrow> URuntimeImageReader \<Rightarrow> URuntimeImageReader" where
  "Reader_Tick_steps E 0 rd = rd"
| "Reader_Tick_steps E (Suc n) rd =
     (if \<not> bStopThread rd then
        (case ConstructTasks rd of
           [] \<Rightarrow> rd
         | Task # rest \<Rightarrow>
             Reader_Tick_steps E n
               (rd\<lparr>ConstructTasks := rest,
                   ConstructedTextures := ConstructedTextures rd @
                     [CreateDummyTexture E (Task_ImageFilename Task) (Task_PixelFormat Task)],
                   TextureConstructedSemaphore := True\<rparr>))
      else rd)"

text \<open>
  The wait \<open>while (!TextureConstructedSemaphore->Wait(100) && !bStopThread) {}\<close>.
  A signalled event ends the wait and is reset; a set stop flag ends it as well.
  Otherwise the wait ends by what the game thread does, which is the environment's choice.
  When the game thread ticks the reader, the first iteration of the tick's loop signals
  the event, which wakes the worker and is reset; the tick goes on beside the worker, and
  has handled \<open>TickProgress\<close> further tasks, signalling each time, when the worker reads
  the placeholders. When the game thread shuts the reader down, \<open>Deinitialize\<close> empties
  the queue and the result buffer before it sets the stop flag. (A game thread that does
  neither for ever is not modelled.)
\<close>

definition WaitTextureConstructed ::
  "environment \<Rightarrow> FConstructTextureTask \<Rightarrow> URuntimeImageReader \<Rightarrow> URuntimeImageReader" where
  "WaitTextureConstructed E Task rd =
     (if TextureConstructedSemaphore rd then rd\<lparr>TextureConstructedSemaphore := False\<rparr>
      else if bStopThread rd then rd
      else (case GameThread E Task of
              GameTicks \<Rightarrow>
                Reader_Tick_steps E (TickProgress E Task)
                  ((Reader_Tick_steps E 1 rd)\<lparr>TextureConstructedSemaphore := False\<rparr>)
            | GameDeinitializes \<Rightarrow> Deinitialize rd))"

text \<open>
  \<open>AsyncReallocateTexture\<close>: the device texture is created from the image data and the
  pixel format, bound to the placeholder's reference, and wrapped in a resource. The two
  round trips to the rendering thread are waited for, so they are sequential here.
\<close>

definition AsyncReallocateTexture ::
  "UTexture2D \<Rightarrow> FRuntimeImageData \<Rightarrow> EPixelFormat \<Rightarrow> UTexture2D" where
  "AsyncReallocateTexture NewTexture ImageData PixelFormat =
     (let RHITexture2D =
            \<lparr>RHI_SizeX = SizeX ImageData, RHI_SizeY = SizeY ImageData,
             RHI_Format = PixelFormat, RHI_NumMips = 1,
             RHI_ShaderResource = True, RHI_SRGB = SRGB ImageData,
             RHI_Mip0Data = RawData ImageData\<rparr>
      in NewTexture\<lparr>TextureReferenceRHI := Some RHITexture2D,
                    Resource := Some (NewRuntimeTextureResource RHITexture2D)\<rparr>)"

text \<open>
  \<open>ReadResult\<close> is a reference to the element that \<open>Results.Emplace_GetRef()\<close> added:
  the last element of \<open>Results\<close>. When the game thread has emptied \<open>Results\<close> during the
  wait, the reference dangles: a write through it is undefined behaviour in the source and
  reaches no element of the buffer, which stays empty.
\<close>

definition ReadResult_update ::
  "(FImageReadResult \<Rightarrow> FImageReadResult) \<Rightarrow> URuntimeImageReader \<Rightarrow> URuntimeImageReader" where
  "ReadResult_update f rd =
     (if Results rd = [] then rd
      else rd\<lparr>Results := butlast (Results rd) @ [f (last (Results rd))]\<rparr>)"

text \<open>How the body of a loop ends: it goes on with the loop, or the function returns.\<close>

datatype 'a flow = Continue 'a | Return 'a

text \<open>
  The body of the inner loop of \<open>BlockTillAllRequestsFinished\<close>, for the request that
  was dequeued. \<open>InGameThread\<close> is the value of \<open>IsInGameThread()\<close> for the calling thread.
\<close>

definition ProcessRequest ::
  "environment \<Rightarrow> bool \<Rightarrow> FImageReadRequest \<Rightarrow> URuntimeImageReader \<Rightarrow> URuntimeImageReader flow" where
  "ProcessRequest E InGameThread Request rd0 =
     (let rd1 = rd0\<lparr>Results := Results rd0 @ [DefaultReadResult]\<rparr>;
          rd2 = ReadResult_update (\<lambda>r. r\<lparr>Result_ImageFilename := ImageFilename Request\<rparr>) rd1;
          ImageData = fst (ImportFileAsImage E (ImageFilename Request));
          rd3 = ReadResult_update
                  (\<lambda>r. r\<lparr>OutError := snd (ImportFileAsImage E (ImageFilename Request))\<rparr>) rd2
      in if length (OutError (last (Results rd3))) > 0 then Continue rd3
         else
           let PixelFormat = DeterminePixelFormat (Format ImageData) (bForUI Request)
           in if PixelFormat = PF_Unknown then
                Continue (ReadResult_update
                  (\<lambda>r. r\<lparr>OutError := ''Image data is corrupted. Please contact devs''\<rparr>) rd3)
              else
                let Task = \<lparr>Task_ImageFilename = ImageFilename Request,
                            Task_PixelFormat = PixelFormat\<rparr>;
                    rd4 = (if InGameThread then
                             rd3\<lparr>ConstructedTextures := ConstructedTextures rd3 @
                                   [CreateDummyTexture E (ImageFilename Request) PixelFormat]\<rparr>
                           else
                             WaitTextureConstructed E Task
                               (rd3\<lparr>ConstructTasks := ConstructTasks rd3 @ [Task]\<rparr>))
                in if ConstructedTextures rd4 = [] then Return rd4
                   else
                     let Texture = (last (ConstructedTextures rd4))
                           \<lparr>PlatformData_SizeX := SizeX ImageData,
                            PlatformData_SizeY := SizeY ImageData\<rparr>;
                         rd5 = rd4\<lparr>ConstructedTextures := butlast (ConstructedTextures rd4)\<rparr>;
                         ImageData' =
                           (if bForUI Request then
                              ImageData\<lparr>RawData := CopyTo_BGRA8 E ImageData, SRGB := True\<rparr>
                            else ImageData)
                     in Continue (ReadResult_update
                          (\<lambda>r. r\<lparr>OutTexture :=
                             Some (AsyncReallocateTexture Texture ImageData' PixelFormat)\<rparr>) rd5))"

lemma Reader_Tick_eq:
  "Reader_Tick E rd =
     (if bStopThread rd \<or> ConstructTasks rd = [] then rd
      else rd\<lparr>ConstructTasks := [],
              ConstructedTextures := ConstructedTextures rd @
                map (\<lambda>Task. CreateDummyTexture E (Task_ImageFilename Task) (Task_PixelFormat Task))
                  (ConstructTasks rd),
              TextureConstructedSemaphore := True\<rparr>)"
proof (induction E rd rule: Reader_Tick.induct)
  case (1 E rd)
  show ?case
  proof (cases "\<not> bStopThread rd")
    case False
    then show ?thesis by (subst Reader_Tick.simps) simp
  next
    case running: True
    show ?thesis
    proof (cases "ConstructTasks rd")
      case Nil
      with running show ?thesis by (subst Reader_Tick.simps) simp
    next
      case (Cons Task rest)
      with running "1.IH" [OF running Cons] show ?thesis
        by (subst Reader_Tick.simps) simp
    qed
  qed
qed

lemma Reader_Tick_frame:
  "Requests (Reader_Tick E rd) = Requests rd"
  "Results (Reader_Tick E rd) = Results rd"
  "bCompletedWork (Reader_Tick E rd) = bCompletedWork rd"
  "bStopThread (Reader_Tick E rd) = bStopThread rd"
  "ThreadSemaphore (Reader_Tick E rd) = ThreadSemaphore rd"
  by (simp_all add: Reader_Tick_eq)

lemma Reader_Tick_steps_frame:
  "Requests (Reader_Tick_steps E n rd) = Requests rd"
  "Results (Reader_Tick_steps E n rd) = Results rd"
  "bCompletedWork (Reader_Tick_steps E n rd) = bCompletedWork rd"
  "bStopThread (Reader_Tick_steps E n rd) = bStopThread rd"
  "ThreadSemaphore (Reader_Tick_steps E n rd) = ThreadSemaphore rd"
  by (induction n arbitrary: rd; simp split: list.splits)+

lemma Reader_Tick_all_steps:
  "Reader_Tick E rd = Reader_Tick_steps E (length (ConstructTasks rd)) rd"
proof (induction E rd rule: Reader_Tick.induct)
  case (1 E rd)
  show ?case
  proof (cases "ConstructTasks rd")
    case Nil
    then show ?thesis by (subst Reader_Tick.simps) simp
  next
    case (Cons Task rest)
    show ?thesis
    proof (cases "bStopThread rd")
      case True
      with Cons show ?thesis by (subst Reader_Tick.simps) simp
    next
      case False
      with Cons "1.IH" [OF _ Cons] show ?thesis
        by (subst Reader_Tick.simps) simp
    qed
  qed
qed

lemma WaitTextureConstructed_frame:
  "bCompletedWork (WaitTextureConstructed E Task rd) = bCompletedWork rd"
  "length (Requests (WaitTextureConstructed E Task rd)) \<le> length (Requests rd)"
  "Results (WaitTextureConstructed E Task rd) = Results rd \<or>
   Results (WaitTextureConstructed E Task rd) = []"
  by (simp_all add: WaitTextureConstructed_def Reader_Tick_steps_frame Deinitialize_def Stop_def
      Trigger_def Clear_def split: game_thread.splits list.splits)

lemma ReadResult_update_frame:
  "Requests (ReadResult_update f rd) = Requests rd"
  "ConstructedTextures (ReadResult_update f rd) = ConstructedTextures rd"
  "ConstructTasks (ReadResult_update f rd) = ConstructTasks rd"
  "bCompletedWork (ReadResult_update f rd) = bCompletedWork rd"
  "bStopThread (ReadResult_update f rd) = bStopThread rd"
  "ThreadSemaphore (ReadResult_update f rd) = ThreadSemaphore rd"
  "TextureConstructedSemaphore (ReadResult_update f rd) = TextureConstructedSemaphore rd"
  by (simp_all add: ReadResult_update_def)

lemma Requests_ProcessRequest:
  "ProcessRequest E gt Request rd = Continue rd' \<Longrightarrow>
   length (Requests rd') \<le> length (Requests rd)"
  by (auto simp: ProcessRequest_def Let_def ReadResult_update_frame split: if_splits
           intro!: order_trans [OF WaitTextureConstructed_frame(2)])

text \<open>The inner loop \<open>while (Requests.Dequeue(Request))\<close>.\<close>

function DequeueLoop ::
  "environment \<Rightarrow> bool \<Rightarrow> URuntimeImageReader \<Rightarrow> URuntimeImageReader flow" where
  "DequeueLoop E InGameThread rd =
     (case Requests rd of
        [] \<Rightarrow> Continue rd
      | Request # rest \<Rightarrow>
          (case ProcessRequest E InGameThread Request (rd\<lparr>Requests := rest\<rparr>) of
             Continue rd' \<Rightarrow> DequeueLoop E InGameThread rd'
           | Return rd' \<Rightarrow> Return rd'))"
  by pat_completeness auto
termination
  by (relation "measure (\<lambda>(E, gt, rd). length (Requests rd))")
     (auto dest!: Requests_ProcessRequest)

declare DequeueLoop.simps [simp del]

lemma DequeueLoop_Nil: "Requests rd = [] \<Longrightarrow> DequeueLoop E gt rd = Continue rd"
  by (subst DequeueLoop.simps) simp

lemma DequeueLoop_Cons:
  "Requests rd = Request # rest \<Longrightarrow>
   DequeueLoop E gt rd =
     (case ProcessRequest E gt Request (rd\<lparr>Requests := rest\<rparr>) of
        Continue rd' \<Rightarrow> DequeueLoop E gt rd'
      | Return rd' \<Rightarrow> Return rd')"
  by (subst DequeueLoop.simps) simp

lemma DequeueLoop_Continue_empty:
  "DequeueLoop E gt rd = Continue rd' \<Longrightarrow> Requests rd' = []"
proof (induction E gt rd rule: DequeueLoop.induct)
  case (1 E gt rd)
  show ?case
  proof (cases "Requests rd")
    case Nil
    with "1.prems" show ?thesis by (simp add: DequeueLoop_Nil)
  next
    case (Cons Request rest)
    with "1.prems" "1.IH" [OF Cons] show ?thesis
      by (auto simp: DequeueLoop_Cons split: flow.splits)
  qed
qed

text \<open>
  \<open>BlockTillAllRequestsFinished\<close>: the outer loop runs the inner loop and then sets the
  completion flag to whether the queue is empty; a \<open>return\<close> of the body leaves at once.
\<close>

function BlockTillAllRequestsFinished ::
  "environment \<Rightarrow> bool \<Rightarrow> URuntimeImageReader \<Rightarrow> URuntimeImageReader" where
  "BlockTillAllRequestsFinished E InGameThread rd =
     (if \<not> bCompletedWork rd \<and> \<not> bStopThread rd then
        (case DequeueLoop E InGameThread rd of
           Continue rd' \<Rightarrow>
             BlockTillAllRequestsFinished E InGameThread
               (rd'\<lparr>bCompletedWork := (Requests rd' = [])\<rparr>)
         | Return rd' \<Rightarrow> rd')
      else rd)"
  by pat_completeness auto
termination
  by (relation "measure (\<lambda>(E, gt, rd). if \<not> bCompletedWork rd \<and> \<not> bStopThread rd then 1 else 0)")
     (auto dest: DequeueLoop_Continue_empty)

declare BlockTillAllRequestsFinished.simps [simp del]

section \<open>The loader\<close>

text \<open>
  Engine objects, as far as the loader looks at them: an object pointer is \<open>None\<close>
  (\<open>nullptr\<close>) or an address; the object at an address is gone (\<open>None\<close>) or it is there,
  pending kill or not, with the names of its functions.
\<close>

record UObject =
  bPendingKill :: bool
  Functions :: "string list"

record FLatentActionInfo =
  Linkage :: int
  UUID :: int
  ExecutionFunction :: string
  CallbackTarget :: "nat option"

text \<open>
  The delegate of a request: unbound, or one of the two lambdas, with what it captured
  (the address of the caller's output parameters and the latent info).
\<close>

datatype FOnRequestCompleted =
  Unbound
| LoadImageAsync_Lambda nat FLatentActionInfo
| LoadHDRIAsync_Lambda nat FLatentActionInfo

record FLoadImageRequest =
  Params :: FImageReadRequest
  OnRequestCompleted :: FOnRequestCompleted

text \<open>The output parameters of one call, which the functions take by reference.\<close>

record OutputParameters =
  Out_OutTexture :: "UTexture2D option"
  Out_OutTextureCube :: "UTextureCube option"
  Out_bSuccess :: bool
  Out_OutError :: string

text \<open>
  What the loader does to the outside, in the order it does it: log lines, the requests
  it hands to the reader, the delegates it executes, and the latent actions it resumes.
\<close>

datatype event =
  LogWarning string
| LogError string
| Call_AddRequest FImageReadRequest
| Call_Execute FOnRequestCompleted FImageReadResult
| Call_ProcessEvent nat string int

text \<open>
  \<open>URuntimeImageLoader\<close> between \<open>Initialize\<close> and \<open>Deinitialize\<close> (the reader is a valid
  object, so \<open>ensure(IsValid(ImageReader))\<close> holds), with the part of the world its
  functions act on: the engine objects, the callers' output parameters by address, and
  the events. \<open>PendingRequests\<close> is the member \<open>Requests\<close>, a queue. \<open>ActiveRequest\<close> is
  the slot of the request in flight: \<open>Requests.Dequeue(ActiveRequest)\<close> fills it
  (\<open>Some\<close>), \<open>ActiveRequest.Invalidate()\<close> empties it (\<open>None\<close>).
\<close>

record URuntimeImageLoader =
  PendingRequests :: "FLoadImageRequest list"
  ActiveRequest :: "FLoadImageRequest option"
  ImageReader :: URuntimeImageReader
  Objects :: "nat \<Rightarrow> UObject option"
  Outputs :: "nat \<Rightarrow> OutputParameters"
  Events :: "event list"

text \<open>
  Modelled from the spec: \<open>FLoadImageRequest::IsRequestValid\<close> and \<open>Invalidate\<close> are
  declared in a header that is not part of the sources. The active request is a single
  optional slot, valid from the moment a request is dequeued into it until it is
  invalidated.
\<close>

definition IsRequestValid :: "FLoadImageRequest option \<Rightarrow> bool" where
  "IsRequestValid Slot = (Slot \<noteq> None)"

definition IsValid :: "URuntimeImageLoader \<Rightarrow> nat option \<Rightarrow> bool" where
  "IsValid s Pointer =
     (case Pointer of
        None \<Rightarrow> False
      | Some Address \<Rightarrow>
          (case Objects s Address of None \<Rightarrow> False | Some Object \<Rightarrow> \<not> bPendingKill Object))"

text \<open>
  The body of the two lambdas. The only difference is the output parameter that receives
  the texture. (The \<open>ensure\<close> of the debug builds only reports.)
\<close>

definition Lambda_body ::
  "(FImageReadResult \<Rightarrow> OutputParameters \<Rightarrow> OutputParameters) \<Rightarrow> nat \<Rightarrow> FLatentActionInfo \<Rightarrow>
   FImageReadResult \<Rightarrow> URuntimeImageLoader \<Rightarrow> URuntimeImageLoader" where
  "Lambda_body SetTexture Out LatentInfo ReadResult s =
     (case CallbackTarget LatentInfo of
        None \<Rightarrow> s
      | Some Target \<Rightarrow>
          if IsValid s (Some Target) then
            if ExecutionFunction LatentInfo \<in> set (Functions (the (Objects s Target))) then
              let s1 = (if OutError ReadResult \<noteq> [] then
                          s\<lparr>Events := Events s @
                               [LogError (''Failed to load image. Error: '' @ OutError ReadResult)]\<rparr>
                        else s);
                  s2 = s1\<lparr>Outputs := (Outputs s1)
                         (Out := SetTexture ReadResult
                            ((Outputs s1 Out)\<lparr>Out_bSuccess := (OutError ReadResult = []),
                                               Out_OutError := OutError ReadResult\<rparr>))\<rparr>
              in if Linkage LatentInfo \<noteq> - 1 then
                   s2\<lparr>Events := Events s2 @
                        [Call_ProcessEvent Target (ExecutionFunction LatentInfo) (Linkage LatentInfo)]\<rparr>
                 else s2
            else s
          else s)"

fun Execute ::
  "FOnRequestCompleted \<Rightarrow> FImageReadResult \<Rightarrow> URuntimeImageLoader \<Rightarrow> error + URuntimeImageLoader" where
  "Execute Unbound ReadResult s = Inl DelegateNotBound"
| "Execute (LoadImageAsync_Lambda Out LatentInfo) ReadResult s =
     Inr (Lambda_body (\<lambda>r out. out\<lparr>Out_OutTexture := OutTexture r\<rparr>) Out LatentInfo ReadResult s)"
| "Execute (LoadHDRIAsync_Lambda Out LatentInfo) ReadResult s =
     Inr (Lambda_body (\<lambda>r out. out\<lparr>Out_OutTextureCube := OutTextureCube r\<rparr>) Out LatentInfo ReadResult s)"

definition LoadImageAsync ::
  "string \<Rightarrow> FTransformImageParams \<Rightarrow> nat \<Rightarrow> FLatentActionInfo \<Rightarrow> nat option \<Rightarrow>
   URuntimeImageLoader \<Rightarrow> URuntimeImageLoader" where
  "LoadImageAsync Filename Transform Out LatentInfo WorldContextObject s =
     (if \<not> IsValid s WorldContextObject then s
      else
        let Request = \<lparr>Params = \<lparr>ImageFilename = Filename, TransformParams = Transform\<rparr>,
                       OnRequestCompleted = LoadImageAsync_Lambda Out LatentInfo\<rparr>
        in s\<lparr>PendingRequests := PendingRequests s @ [Request]\<rparr>)"

definition LoadHDRIAsync ::
  "environment \<Rightarrow> string \<Rightarrow> FTransformImageParams \<Rightarrow> nat \<Rightarrow> FLatentActionInfo \<Rightarrow> nat option \<Rightarrow>
   URuntimeImageLoader \<Rightarrow> URuntimeImageLoader" where
  "LoadHDRIAsync E Filename Transform Out LatentInfo WorldContextObject s =
     (if \<not> IsValid s WorldContextObject then s
      else if PLATFORM_ANDROID E then
        let Message = ''Loading cubemaps is not supported on Android platform! Please build plugin from source to change this behaviour..''
        in s\<lparr>Outputs := (Outputs s)
               (Out := (Outputs s Out)\<lparr>Out_OutError := Message, Out_bSuccess := False\<rparr>),
             Events := Events s @ [LogWarning Message]\<rparr>
      else
        let Request = \<lparr>Params = \<lparr>ImageFilename = Filename, TransformParams = Transform\<rparr>,
                       OnRequestCompleted = LoadHDRIAsync_Lambda Out LatentInfo\<rparr>
        in s\<lparr>PendingRequests := PendingRequests s @ [Request]\<rparr>)"

text \<open>
  \<open>LoadImageSync\<close> up to \<open>GetResult\<close>: the local \<open>ReadResult\<close> and the reader afterwards.
  \<open>InGameThread\<close> is the value of \<open>IsInGameThread()\<close> for the calling thread.
\<close>

definition LoadImageSync_ReadResult ::
  "environment \<Rightarrow> bool \<Rightarrow> string \<Rightarrow> FTransformImageParams \<Rightarrow> URuntimeImageReader \<Rightarrow>
   error + (FImageReadResult \<times> URuntimeImageReader)" where
  "LoadImageSync_ReadResult E InGameThread Filename Transform rd =
     (let ReadRequest = \<lparr>ImageFilename = Filename, TransformParams = Transform\<rparr>;
          rd1 = BlockTillAllRequestsFinished E InGameThread rd;
          rd2 = AddRequest ReadRequest rd1;
          rd3 = BlockTillAllRequestsFinished E InGameThread rd2
      in GetResult rd3)"


text \<open>\<open>CancelAll\<close>: \<open>check(IsInGameThread())\<close> comes before the platform carve-out.\<close>

definition CancelAll :: "environment \<Rightarrow> bool \<Rightarrow> URuntimeImageLoader \<Rightarrow> error + URuntimeImageLoader" where
  "CancelAll E InGameThread s =
     (if \<not> InGameThread then Inl AssertionFailed
      else if PLATFORM_ANDROID E then
        Inr (s\<lparr>Events := Events s @
               [LogWarning ''Cancelling http requests is not supported on Android platform!'']\<rparr>)
      else
        Inr (s\<lparr>PendingRequests := [], ActiveRequest := None,
               ImageReader := Clear (ImageReader s)\<rparr>))"

text \<open>The first block of \<open>Tick\<close>: a pending request becomes the active request.\<close>

definition Tick_Dispatch :: "URuntimeImageLoader \<Rightarrow> URuntimeImageLoader" where
  "Tick_Dispatch s =
     (if \<not> IsRequestValid (ActiveRequest s) \<and> \<not> PendingRequests s = [] then
        let Active = hd (PendingRequests s);
            ReadRequest = Params Active
        in s\<lparr>PendingRequests := tl (PendingRequests s),
             ActiveRequest := Some Active,
             ImageReader := Trigger (AddRequest ReadRequest (ImageReader s)),
             Events := Events s @ [Call_AddRequest ReadRequest]\<rparr>
      else s)"

text \<open>The second block of \<open>Tick\<close>: the result goes to the active request's delegate.\<close>

definition Tick_Complete :: "URuntimeImageLoader \<Rightarrow> error + URuntimeImageLoader" where
  "Tick_Complete s =
     (case ActiveRequest s of
        None \<Rightarrow> Inr s
      | Some Active \<Rightarrow>
          if IsWorkCompleted (ImageReader s) then
            (case GetResult (ImageReader s) of
               Inl e \<Rightarrow> Inl e
             | Inr (ReadResult, rd) \<Rightarrow>
                 (case Execute (OnRequestCompleted Active) ReadResult
                         (s\<lparr>ImageReader := rd,
                            Events := Events s @
                              [Call_Execute (OnRequestCompleted Active) ReadResult]\<rparr>) of
                    Inl e \<Rightarrow> Inl e
                  | Inr s' \<Rightarrow> Inr (s'\<lparr>ActiveRequest := None\<rparr>)))
          else Inr s)"

definition Tick :: "URuntimeImageLoader \<Rightarrow> error + URuntimeImageLoader" where
  "Tick s = Tick_Complete (Tick_Dispatch s)"

text \<open>
  The worker thread runs beside the game thread. What it does to the reader between two
  steps of the game thread is a function on the reader; nothing is assumed about it.
  A frame is a \<open>Tick\<close> with the worker's activity before it and between its two blocks.
\<close>

definition Worker_acts ::
  "(URuntimeImageReader \<Rightarrow> URuntimeImageReader) \<Rightarrow> URuntimeImageLoader \<Rightarrow> URuntimeImageLoader" where
  "Worker_acts w s = s\<lparr>ImageReader := w (ImageReader s)\<rparr>"

definition Tick_interleaved ::
  "(URuntimeImageReader \<Rightarrow> URuntimeImageReader) \<Rightarrow> URuntimeImageLoader \<Rightarrow> error + URuntimeImageLoader" where
  "Tick_interleaved w s = Tick_Complete (Worker_acts w (Tick_Dispatch s))"

fun Ticks ::
  "((URuntimeImageReader \<Rightarrow> URuntimeImageReader) \<times> (URuntimeImageReader \<Rightarrow> URuntimeImageReader)) list \<Rightarrow>
   URuntimeImageLoader \<Rightarrow> error + URuntimeImageLoader" where
  "Ticks [] s = Inr s"
| "Ticks ((ahead, between) # frames) s =
     (case Tick_interleaved between (Worker_acts ahead s) of
        Inl e \<Rightarrow> Inl e
      | Inr s' \<Rightarrow> Ticks frames s')"

text \<open>Reading the events: the requests dispatched and the delegates executed, in order.\<close>

fun Dispatched :: "event list \<Rightarrow> FImageReadRequest list" where
  "Dispatched [] = []"
| "Dispatched (Call_AddRequest Request # es) = Request # Dispatched es"
| "Dispatched (e # es) = Dispatched es"

fun Executed :: "event list \<Rightarrow> (FOnRequestCompleted \<times> FImageReadResult) list" where
  "Executed [] = []"
| "Executed (Call_Execute Delegate ReadResult # es) = (Delegate, ReadResult) # Executed es"
| "Executed (e # es) = Executed es"

text \<open>
  One request in flight: starting with the slot busy or free, no request is dispatched
  while the slot is busy and no delegate is executed while it is free. The result is
  whether the slot is busy at the end, or \<open>None\<close> when the events break the rule.
\<close>

fun single_in_flight :: "bool \<Rightarrow> event list \<Rightarrow> bool option" where
  "single_in_flight busy [] = Some busy"
| "single_in_flight busy (Call_AddRequest Request # es) =
     (if busy then None else single_in_flight True es)"
| "single_in_flight busy (Call_Execute Delegate ReadResult # es) =
     (if busy then single_in_flight False es else None)"
| "single_in_flight busy (e # es) = single_in_flight busy es"

section \<open>Concrete inputs\<close>

definition Example_Image :: "ERawImageFormat \<Rightarrow> FRuntimeImageData" where
  "Example_Image fmt =
     \<lparr>SizeX = 2, SizeY = 1, Format = fmt, RawData = [1, 2, 3, 4], SRGB = False\<rparr>"

definition Example_Decoder :: "string \<Rightarrow> FRuntimeImageData \<times> string" where
  "Example_Decoder Filename =
     (if Filename = ''broken.png'' then (Example_Image BGRA8, ''invalid header'')
      else if Filename = ''exotic.exr'' then (Example_Image (OtherRawFormat 0), [])
      else if Filename = ''gray16.png'' then (Example_Image G16, [])
      else (Example_Image BGRA8, []))"

definition Example_Environment :: "bool \<Rightarrow> game_thread \<Rightarrow> environment" where
  "Example_Environment android game =
     \<lparr>PLATFORM_ANDROID = android,
      ImportFileAsImage = Example_Decoder,
      CopyTo_BGRA8 = (\<lambda>ImageData. [9, 9, 9, 9, 9, 9, 9, 9]),
      CreateDummyTexture = (\<lambda>Filename PixelFormat.
        \<lparr>Dummy_Name = Filename, Dummy_PixelFormat = PixelFormat,
         PlatformData_SizeX = 1, PlatformData_SizeY = 1,
         TextureReferenceRHI = None, Resource = None\<rparr>),
      GameThread = (\<lambda>Task. game),
      TickProgress = (\<lambda>Task. 0)\<rparr>"

definition Example_Request :: "string \<Rightarrow> bool \<Rightarrow> FImageReadRequest" where
  "Example_Request Filename ForUI =
     \<lparr>ImageFilename = Filename,
      TransformParams = \<lparr>Transform_bForUI = ForUI, Transform_Other = 0\<rparr>\<rparr>"

definition Example_Reader :: "FImageReadRequest list \<Rightarrow> URuntimeImageReader" where
  "Example_Reader Pending =
     \<lparr>Requests = Pending, Results = [], ConstructTasks = [], ConstructedTextures = [],
      bCompletedWork = False, bStopThread = False,
      ThreadSemaphore = False, TextureConstructedSemaphore = False\<rparr>"

lemmas Example_defs =
  Example_Image_def Example_Decoder_def Example_Environment_def Example_Request_def
  Example_Reader_def


definition Example_LatentInfo :: FLatentActionInfo where
  "Example_LatentInfo =
     \<lparr>Linkage = 3, UUID = 0, ExecutionFunction = ''OnLoaded'', CallbackTarget = Some 1\<rparr>"

definition Example_LoadRequest :: "string \<Rightarrow> nat \<Rightarrow> FLoadImageRequest" where
  "Example_LoadRequest Filename Out =
     \<lparr>Params = Example_Request Filename False,
      OnRequestCompleted = LoadImageAsync_Lambda Out Example_LatentInfo\<rparr>"

definition Example_Objects :: "nat \<Rightarrow> UObject option" where
  "Example_Objects Address =
     (if Address = 1 then Some \<lparr>bPendingKill = False, Functions = [''OnLoaded'']\<rparr>
      else if Address = 2 then Some \<lparr>bPendingKill = True, Functions = []\<rparr>
      else None)"

definition Example_Outputs :: "nat \<Rightarrow> OutputParameters" where
  "Example_Outputs Address =
     \<lparr>Out_OutTexture = None, Out_OutTextureCube = None, Out_bSuccess = False, Out_OutError = []\<rparr>"

definition Example_Loader ::
  "FLoadImageRequest list \<Rightarrow> FLoadImageRequest option \<Rightarrow> URuntimeImageReader \<Rightarrow> URuntimeImageLoader" where
  "Example_Loader Pending Active rd =
     \<lparr>PendingRequests = Pending, ActiveRequest = Active, ImageReader = rd,
      Objects = Example_Objects, Outputs = Example_Outputs, Events = []\<rparr>"

lemmas Example_loader_defs =
  Example_LatentInfo_def Example_LoadRequest_def Example_Objects_def Example_Outputs_def
  Example_Loader_def

definition Example_Dispatched :: URuntimeImageLoader where
  "Example_Dispatched =
     (Example_Loader [] (Some (Example_LoadRequest ''broken.png'' 5))
        ((Example_Reader [Example_Request ''broken.png'' False])\<lparr>ThreadSemaphore := True\<rparr>))
     \<lparr>Events := [Call_AddRequest (Example_Request ''broken.png'' False)]\<rparr>"

definition Example_Delivered :: URuntimeImageLoader where
  "Example_Delivered =
     (Example_Loader [] None
        ((Example_Reader [])\<lparr>ThreadSemaphore := True, bCompletedWork := True\<rparr>))
     \<lparr>Outputs := Example_Outputs
        (5 := \<lparr>Out_OutTexture = None, Out_OutTextureCube = None, Out_bSuccess = False,
               Out_OutError = ''invalid header''\<rparr>),
      Events :=
        [Call_AddRequest (Example_Request ''broken.png'' False),
         Call_Execute (LoadImageAsync_Lambda 5 Example_LatentInfo)
           \<lparr>Result_ImageFilename = ''broken.png'', OutTexture = None, OutTextureCube = None,
             OutError = ''invalid header''\<rparr>,
         LogError ''Failed to load image. Error: invalid header'',
         Call_ProcessEvent 1 ''OnLoaded'' 3]\<rparr>"

definition Example_Busy :: URuntimeImageLoader where
  "Example_Busy =
     Example_Loader [Example_LoadRequest ''photo.png'' 6]
       (Some (Example_LoadRequest ''broken.png'' 5))
       ((Example_Reader [Example_Request ''broken.png'' False])
          \<lparr>Results := [DefaultReadResult], ThreadSemaphore := True\<rparr>)"

section \<open>The worker: one request\<close>

lemma ProcessRequest_error:
  assumes "snd (ImportFileAsImage E (ImageFilename Request)) \<noteq> [] \<or>
           DeterminePixelFormat (Format (fst (ImportFileAsImage E (ImageFilename Request))))
             (bForUI Request) = PF_Unknown"
  shows "ProcessRequest E gt Request rd =
         Continue (rd\<lparr>Results := Results rd @
           [\<lparr>Result_ImageFilename = ImageFilename Request, OutTexture = None,
             OutTextureCube = None,
             OutError = (if snd (ImportFileAsImage E (ImageFilename Request)) \<noteq> []
                         then snd (ImportFileAsImage E (ImageFilename Request))
                         else ''Image data is corrupted. Please contact devs'')\<rparr>]\<rparr>)"
  using assms
  by (auto simp: ProcessRequest_def Let_def ReadResult_update_def DefaultReadResult_def)










text \<open>
  The wait at concrete inputs. With one task queued the worker gets that task's
  placeholder. With an older task still queued, the worker wakes at the first signal and
  takes the older task's placeholder; if the tick has handled one more task by then, the
  worker takes the newer placeholder, the older one stays, and the event is signalled again.
\<close>

lemma Example_wait_served:
  "map (\<lambda>r. map_option Dummy_Name (OutTexture r))
     (Results (BlockTillAllRequestsFinished (Example_Environment False GameTicks) False
        (Example_Reader [Example_Request ''photo.png'' False]))) = [Some ''photo.png'']"
  by (simp add: BlockTillAllRequestsFinished.simps DequeueLoop.simps ProcessRequest_def Let_def
      ReadResult_update_def DefaultReadResult_def bForUI_def WaitTextureConstructed_def
      AsyncReallocateTexture_def Example_defs)

lemma Example_wait_older_placeholder:
  "(\<lambda>rd. (map (\<lambda>r. map_option Dummy_Name (OutTexture r)) (Results rd),
           map Task_ImageFilename (ConstructTasks rd), map Dummy_Name (ConstructedTextures rd),
           TextureConstructedSemaphore rd))
     (BlockTillAllRequestsFinished (Example_Environment False GameTicks) False
        ((Example_Reader [Example_Request ''photo.png'' False])
           \<lparr>ConstructTasks := [\<lparr>Task_ImageFilename = ''old.png'', Task_PixelFormat = PF_G8\<rparr>]\<rparr>)) =
     ([Some ''old.png''], [''photo.png''], [], False) \<and>
   (\<lambda>rd. (map (\<lambda>r. map_option Dummy_Name (OutTexture r)) (Results rd),
           map Task_ImageFilename (ConstructTasks rd), map Dummy_Name (ConstructedTextures rd),
           TextureConstructedSemaphore rd))
     (BlockTillAllRequestsFinished
        ((Example_Environment False GameTicks)\<lparr>TickProgress := (\<lambda>Task. 1)\<rparr>) False
        ((Example_Reader [Example_Request ''photo.png'' False])
           \<lparr>ConstructTasks := [\<lparr>Task_ImageFilename = ''old.png'', Task_PixelFormat = PF_G8\<rparr>]\<rparr>)) =
     ([Some ''photo.png''], [], [''old.png''], True)"
  by (simp add: BlockTillAllRequestsFinished.simps DequeueLoop.simps ProcessRequest_def Let_def
      ReadResult_update_def DefaultReadResult_def bForUI_def WaitTextureConstructed_def
      AsyncReallocateTexture_def Example_defs)

section \<open>The loader: one tick, many ticks\<close>

lemma Dispatched_append: "Dispatched (xs @ ys) = Dispatched xs @ Dispatched ys"
  by (induction xs rule: Dispatched.induct) simp_all

lemma Executed_append: "Executed (xs @ ys) = Executed xs @ Executed ys"
  by (induction xs rule: Executed.induct) simp_all

lemma single_in_flight_append:
  "single_in_flight busy (xs @ ys) =
     (case single_in_flight busy xs of None \<Rightarrow> None | Some busy' \<Rightarrow> single_in_flight busy' ys)"
  by (induction busy xs rule: single_in_flight.induct) simp_all

lemma Lambda_body_frame:
  "PendingRequests (Lambda_body f Out LatentInfo r s) = PendingRequests s"
  "ActiveRequest (Lambda_body f Out LatentInfo r s) = ActiveRequest s"
  "ImageReader (Lambda_body f Out LatentInfo r s) = ImageReader s"
  by (simp_all add: Lambda_body_def Let_def split: option.splits)

lemma Lambda_body_events:
  "\<exists>new. Events (Lambda_body f Out LatentInfo r s) = Events s @ new \<and>
         Dispatched new = [] \<and> Executed new = [] \<and>
         single_in_flight busy new = Some busy"
  by (auto simp: Lambda_body_def Let_def split: option.splits)

lemma Execute_frame:
  assumes "Execute Delegate r s = Inr s'"
  shows "PendingRequests s' = PendingRequests s \<and> ActiveRequest s' = ActiveRequest s \<and>
         ImageReader s' = ImageReader s \<and>
         (\<exists>new. Events s' = Events s @ new \<and> Dispatched new = [] \<and> Executed new = [] \<and>
                single_in_flight busy new = Some busy)"
  using assms Lambda_body_events [of _ _ _ r s busy]
  by (cases Delegate) (auto simp: Lambda_body_frame)

lemma Tick_Dispatch_cases:
  "Tick_Dispatch s =
     (if ActiveRequest s = None \<and> PendingRequests s \<noteq> [] then
        s\<lparr>PendingRequests := tl (PendingRequests s),
          ActiveRequest := Some (hd (PendingRequests s)),
          ImageReader := Trigger (AddRequest (Params (hd (PendingRequests s))) (ImageReader s)),
          Events := Events s @ [Call_AddRequest (Params (hd (PendingRequests s)))]\<rparr>
      else s)"
  by (simp add: Tick_Dispatch_def IsRequestValid_def Let_def)

lemma Tick_eq: "Tick s = Tick_interleaved id (Worker_acts id s)"
  by (simp add: Tick_def Tick_interleaved_def Worker_acts_def)

lemma Tick_Complete_idle:
  "ActiveRequest s = None \<or> \<not> IsWorkCompleted (ImageReader s) \<Longrightarrow> Tick_Complete s = Inr s"
  by (auto simp: Tick_Complete_def split: option.splits)

lemma Tick_Complete_delivers:
  assumes "Tick_Complete s = Inr s'" "ActiveRequest s = Some Active" "IsWorkCompleted (ImageReader s)"
  shows "Results (ImageReader s) \<noteq> [] \<and> ActiveRequest s' = None \<and>
         PendingRequests s' = PendingRequests s \<and>
         ImageReader s' = (ImageReader s)\<lparr>Results := butlast (Results (ImageReader s))\<rparr> \<and>
         (\<exists>new. Events s' = Events s @ new \<and> Dispatched new = [] \<and>
            Executed new = [(OnRequestCompleted Active, last (Results (ImageReader s)))] \<and>
            single_in_flight True new = Some False)"
proof -
  from assms have nonempty: "Results (ImageReader s) \<noteq> []"
    by (auto simp: Tick_Complete_def GetResult_def split: if_splits)
  let ?r = "last (Results (ImageReader s))"
  let ?s1 = "s\<lparr>ImageReader := (ImageReader s)\<lparr>Results := butlast (Results (ImageReader s))\<rparr>,
               Events := Events s @ [Call_Execute (OnRequestCompleted Active) ?r]\<rparr>"
  from assms nonempty obtain s2 where
    ex: "Execute (OnRequestCompleted Active) ?r ?s1 = Inr s2" and s': "s' = s2\<lparr>ActiveRequest := None\<rparr>"
    by (auto simp: Tick_Complete_def GetResult_def split: sum.splits)
  from Execute_frame [OF ex, of False]
  obtain new where new: "PendingRequests s2 = PendingRequests ?s1" "ImageReader s2 = ImageReader ?s1"
    "Events s2 = Events ?s1 @ new" "Dispatched new = []" "Executed new = []"
    "single_in_flight False new = Some False"
    by auto
  have "Events s' = Events s @ (Call_Execute (OnRequestCompleted Active) ?r # new)"
    using s' new(3) by simp
  moreover have "Dispatched (Call_Execute (OnRequestCompleted Active) ?r # new) = []"
    "Executed (Call_Execute (OnRequestCompleted Active) ?r # new) = [(OnRequestCompleted Active, ?r)]"
    "single_in_flight True (Call_Execute (OnRequestCompleted Active) ?r # new) = Some False"
    using new by simp_all
  ultimately have "\<exists>new. Events s' = Events s @ new \<and> Dispatched new = [] \<and>
            Executed new = [(OnRequestCompleted Active, ?r)] \<and>
            single_in_flight True new = Some False"
    by blast
  with nonempty s' new(1,2) show ?thesis by simp
qed


lemma Tick_interleaved_step:
  assumes "Tick_interleaved w (Worker_acts ahead t) = Inr t'"
  shows "\<exists>new. Events t' = Events t @ new \<and>
     Dispatched new =
       (if ActiveRequest t = None \<and> PendingRequests t \<noteq> []
        then [Params (hd (PendingRequests t))] else []) \<and>
     Executed new =
       (if ActiveRequest (Tick_Dispatch (Worker_acts ahead t)) \<noteq> None \<and>
           IsWorkCompleted (w (ImageReader (Tick_Dispatch (Worker_acts ahead t))))
        then [(OnRequestCompleted (the (ActiveRequest (Tick_Dispatch (Worker_acts ahead t)))),
               last (Results (w (ImageReader (Tick_Dispatch (Worker_acts ahead t))))))]
        else []) \<and>
     ActiveRequest (Tick_Dispatch (Worker_acts ahead t)) =
       (if ActiveRequest t = None \<and> PendingRequests t \<noteq> []
        then Some (hd (PendingRequests t)) else ActiveRequest t) \<and>
     ActiveRequest t' =
       (if IsWorkCompleted (w (ImageReader (Tick_Dispatch (Worker_acts ahead t)))) then None
        else ActiveRequest (Tick_Dispatch (Worker_acts ahead t))) \<and>
     PendingRequests t' =
       (if ActiveRequest t = None \<and> PendingRequests t \<noteq> []
        then tl (PendingRequests t) else PendingRequests t) \<and>
     single_in_flight (ActiveRequest t \<noteq> None) new = Some (ActiveRequest t' \<noteq> None)"
proof -
  let ?d = "Tick_Dispatch (Worker_acts ahead t)"
  let ?m = "Worker_acts w ?d"
  let ?cond = "ActiveRequest t = None \<and> PendingRequests t \<noteq> []"
  let ?new1 = "if ?cond then [Call_AddRequest (Params (hd (PendingRequests t)))] else []"
  have d: "Events ?m = Events t @ ?new1"
    "ActiveRequest ?m = (if ?cond then Some (hd (PendingRequests t)) else ActiveRequest t)"
    "PendingRequests ?m = (if ?cond then tl (PendingRequests t) else PendingRequests t)"
    "ImageReader ?m = w (ImageReader ?d)"
    "ActiveRequest ?d = ActiveRequest ?m"
    by (simp_all add: Tick_Dispatch_cases Worker_acts_def)
  have flight1: "single_in_flight (ActiveRequest t \<noteq> None) ?new1 = Some (ActiveRequest ?m \<noteq> None)"
    using d(2) by auto
  from assms have complete: "Tick_Complete ?m = Inr t'"
    by (simp add: Tick_interleaved_def)
  show ?thesis
  proof (cases "ActiveRequest ?m \<noteq> None \<and> IsWorkCompleted (ImageReader ?m)")
    case False
    then have "ActiveRequest ?m = None \<or> \<not> IsWorkCompleted (ImageReader ?m)" by blast
    from Tick_Complete_idle [OF this] complete have t': "t' = ?m" by simp
    have "Events t' = Events t @ ?new1 \<and>
          Dispatched ?new1 = (if ?cond then [Params (hd (PendingRequests t))] else []) \<and>
          Executed ?new1 = []"
      using d(1) t' by simp
    moreover have "ActiveRequest t' =
        (if IsWorkCompleted (w (ImageReader ?d)) then None else ActiveRequest ?d)"
      using False t' d(4,5) by auto
    ultimately show ?thesis
      using False d(2-5) flight1 t' by (intro exI [of _ ?new1]) simp
  next
    case True
    then obtain Active where active: "ActiveRequest ?m = Some Active"
      and completed: "IsWorkCompleted (ImageReader ?m)"
      by auto
    from Tick_Complete_delivers [OF complete active completed]
    obtain new2 where new2: "ActiveRequest t' = None" "PendingRequests t' = PendingRequests ?m"
      "Events t' = Events ?m @ new2" "Dispatched new2 = []"
      "Executed new2 = [(OnRequestCompleted Active, last (Results (ImageReader ?m)))]"
      "single_in_flight True new2 = Some False"
      by auto
    have ev: "Events t' = Events t @ (?new1 @ new2)"
      using new2(3) d(1) by simp
    have disp: "Dispatched (?new1 @ new2) =
        (if ?cond then [Params (hd (PendingRequests t))] else [])"
      using new2(4) by (simp add: Dispatched_append)
    have exec: "Executed (?new1 @ new2) =
        [(OnRequestCompleted (the (ActiveRequest ?d)), last (Results (w (ImageReader ?d))))]"
      using new2(5) active d(4,5) by (simp add: Executed_append)
    have flight: "single_in_flight (ActiveRequest t \<noteq> None) (?new1 @ new2) =
        Some (ActiveRequest t' \<noteq> None)"
      using flight1 active new2(1,6) by (simp add: single_in_flight_append)
    from True d(4,5) have cond2: "ActiveRequest ?d \<noteq> None \<and> IsWorkCompleted (w (ImageReader ?d))"
      by simp
    show ?thesis
      using ev disp exec flight cond2 new2(1,2) d(2,3,5)
      by (intro exI [of _ "?new1 @ new2"]) simp
  qed
qed

lemma Ticks_append:
  "Ticks (fs @ gs) s = (case Ticks fs s of Inl e \<Rightarrow> Inl e | Inr t \<Rightarrow> Ticks gs t)"
  by (induction fs s rule: Ticks.induct) (simp_all split: sum.splits)

lemma Ticks_run:
  "Ticks frames s = Inr s' \<Longrightarrow>
   \<exists>new k. Events s' = Events s @ new \<and>
     Dispatched new = map Params (take k (PendingRequests s)) \<and>
     PendingRequests s' = drop k (PendingRequests s) \<and>
     single_in_flight (ActiveRequest s \<noteq> None) new = Some (ActiveRequest s' \<noteq> None)"
proof (induction frames arbitrary: s)
  case Nil
  then have "s' = s" by simp
  then show ?case by (intro exI [of _ "[]"] exI [of _ 0]) simp
next
  case (Cons frame frames)
  obtain ahead between where frame: "frame = (ahead, between)" by (cases frame)
  let ?s0 = "Worker_acts ahead s"
  from Cons.prems frame obtain s1 where
    tick: "Tick_interleaved between ?s0 = Inr s1" and rest: "Ticks frames s1 = Inr s'"
    by (auto split: sum.splits)
  let ?cond = "ActiveRequest s = None \<and> PendingRequests s \<noteq> []"
  from Tick_interleaved_step [OF tick]
  obtain new1 where new1: "Events s1 = Events s @ new1"
    "Dispatched new1 = (if ?cond then [Params (hd (PendingRequests s))] else [])"
    "PendingRequests s1 = (if ?cond then tl (PendingRequests s) else PendingRequests s)"
    "single_in_flight (ActiveRequest s \<noteq> None) new1 = Some (ActiveRequest s1 \<noteq> None)"
    by auto
  from Cons.IH [OF rest]
  obtain new2 k where new2: "Events s' = Events s1 @ new2"
    "Dispatched new2 = map Params (take k (PendingRequests s1))"
    "PendingRequests s' = drop k (PendingRequests s1)"
    "single_in_flight (ActiveRequest s1 \<noteq> None) new2 = Some (ActiveRequest s' \<noteq> None)"
    by auto
  let ?k = "if ?cond then Suc k else k"
  have "Events s' = Events s @ (new1 @ new2)"
    using new1(1) new2(1) by simp
  moreover have "Dispatched (new1 @ new2) = map Params (take ?k (PendingRequests s))"
    using new1(2,3) new2(2) by (cases "PendingRequests s") (auto simp: Dispatched_append)
  moreover have "PendingRequests s' = drop ?k (PendingRequests s)"
    using new1(3) new2(3) by (cases "PendingRequests s") auto
  moreover have "single_in_flight (ActiveRequest s \<noteq> None) (new1 @ new2) =
      Some (ActiveRequest s' \<noteq> None)"
    using new1(4) new2(4) by (simp add: single_in_flight_append)
  ultimately show ?case by blast
qed

lemma Ticks_idle:
  "ActiveRequest s = None \<Longrightarrow> PendingRequests s = [] \<Longrightarrow>
   \<exists>rd. Ticks frames s = Inr (s\<lparr>ImageReader := rd\<rparr>)"
proof (induction frames arbitrary: s)
  case Nil
  show ?case by (intro exI [of _ "ImageReader s"]) simp
next
  case (Cons frame frames)
  obtain ahead between where frame: "frame = (ahead, between)" by (cases frame)
  let ?s1 = "s\<lparr>ImageReader := between (ahead (ImageReader s))\<rparr>"
  from Cons.prems have tick: "Tick_interleaved between (Worker_acts ahead s) = Inr ?s1"
    by (simp add: Tick_interleaved_def Worker_acts_def Tick_Dispatch_cases Tick_Complete_idle)
  from Cons.prems Cons.IH [of ?s1] obtain rd where "Ticks frames ?s1 = Inr (?s1\<lparr>ImageReader := rd\<rparr>)"
    by auto
  with tick frame have "Ticks (frame # frames) s = Inr (s\<lparr>ImageReader := rd\<rparr>)"
    by simp
  then show ?case by blast
qed

lemma Example_Ticks_dispatch:
  "Ticks [(id, id)] (Example_Loader [Example_LoadRequest ''broken.png'' 5] None (Example_Reader [])) =
     Inr Example_Dispatched"
  by (simp add: Tick_interleaved_def Worker_acts_def Tick_Dispatch_def Tick_Complete_def
      IsRequestValid_def IsWorkCompleted_def AddRequest_def Trigger_def Let_def
      Example_Dispatched_def Example_defs Example_loader_defs)

lemma Example_Tick_deliver:
  "Tick_interleaved id
     (Worker_acts (BlockTillAllRequestsFinished (Example_Environment False GameTicks) False)
        Example_Dispatched) = Inr Example_Delivered"
  by (simp add: Tick_interleaved_def Worker_acts_def Tick_Dispatch_def Tick_Complete_def
      IsRequestValid_def IsWorkCompleted_def GetResult_def Lambda_body_def IsValid_def Let_def
      BlockTillAllRequestsFinished.simps DequeueLoop.simps ProcessRequest_def
      ReadResult_update_def DefaultReadResult_def bForUI_def
      Example_Dispatched_def Example_Delivered_def Example_defs Example_loader_defs)

section \<open>Claims about the reader\<close>

text \<open>
  C7. \<open>GetResult\<close> on an empty result buffer is the precondition violation; otherwise it
  removes and returns the result that was added last, whatever is buffered before it.
\<close>

theorem GetResult_pops_most_recent:
  "GetResult (rd\<lparr>Results := rs @ [r]\<rparr>) = Inr (r, rd\<lparr>Results := rs\<rparr>) \<and>
   GetResult (rd\<lparr>Results := []\<rparr>) = Inl PreconditionViolation"
  by (simp add: GetResult_def)

text \<open>
  C2, as stated, asks for the message \<open>image data is corrupted or unsupported\<close> when the
  decoded format has no pixel format. The reader writes another message.
\<close>

theorem unsupported_message_counterexample:
  "DeterminePixelFormat
     (Format (fst (ImportFileAsImage (Example_Environment False GameTicks) ''exotic.exr'')))
     False = PF_Unknown \<and>
   map OutError (Results (BlockTillAllRequestsFinished (Example_Environment False GameTicks) False
     (Example_Reader [Example_Request ''exotic.exr'' False]))) \<noteq>
   [''image data is corrupted or unsupported'']"
  by (simp add: BlockTillAllRequestsFinished.simps DequeueLoop.simps ProcessRequest_def Let_def
      ReadResult_update_def DefaultReadResult_def bForUI_def Example_defs)

text \<open>
  C2, amended. When the decoder reports an error for the dequeued request, or the decoded
  format maps to \<open>PF_Unknown\<close>, the inner loop adds one result for the request, with the
  request's filename, no texture, and the error (the decoder's message, or
  \<open>Image data is corrupted. Please contact devs\<close> for the unmapped format), and goes on
  with the rest of the queue.
\<close>

theorem DequeueLoop_request_error:
  assumes "Requests rd = Request # rest"
    and "snd (ImportFileAsImage E (ImageFilename Request)) \<noteq> [] \<or>
         DeterminePixelFormat (Format (fst (ImportFileAsImage E (ImageFilename Request))))
           (bForUI Request) = PF_Unknown"
  shows "DequeueLoop E gt rd =
         DequeueLoop E gt (rd\<lparr>Requests := rest, Results := Results rd @
           [\<lparr>Result_ImageFilename = ImageFilename Request, OutTexture = None,
             OutTextureCube = None,
             OutError = (if snd (ImportFileAsImage E (ImageFilename Request)) \<noteq> []
                         then snd (ImportFileAsImage E (ImageFilename Request))
                         else ''Image data is corrupted. Please contact devs'')\<rparr>]\<rparr>)"
  by (simp add: DequeueLoop_Cons [OF assms(1)] ProcessRequest_error [OF assms(2)])

theorem DequeueLoop_request_error_witness:
  "Requests (Example_Reader
     [Example_Request ''exotic.exr'' False, Example_Request ''broken.png'' False]) =
     Example_Request ''exotic.exr'' False # [Example_Request ''broken.png'' False] \<and>
   snd (ImportFileAsImage (Example_Environment False GameTicks) ''exotic.exr'') = [] \<and>
   DeterminePixelFormat
     (Format (fst (ImportFileAsImage (Example_Environment False GameTicks) ''exotic.exr'')))
     False = PF_Unknown \<and>
   Results (BlockTillAllRequestsFinished (Example_Environment False GameTicks) False
     (Example_Reader
        [Example_Request ''exotic.exr'' False, Example_Request ''broken.png'' False])) =
     [\<lparr>Result_ImageFilename = ''exotic.exr'', OutTexture = None, OutTextureCube = None,
       OutError = ''Image data is corrupted. Please contact devs''\<rparr>,
      \<lparr>Result_ImageFilename = ''broken.png'', OutTexture = None, OutTextureCube = None,
       OutError = ''invalid header''\<rparr>]"
  using DequeueLoop_request_error [of
      "Example_Reader [Example_Request ''exotic.exr'' False, Example_Request ''broken.png'' False]"
      "Example_Request ''exotic.exr'' False" "[Example_Request ''broken.png'' False]"
      "Example_Environment False GameTicks" False]
  by (simp add: BlockTillAllRequestsFinished.simps DequeueLoop.simps ProcessRequest_def Let_def
      ReadResult_update_def DefaultReadResult_def bForUI_def Example_defs)

text \<open>
  C3, at a UI request whose file decodes to G16: the buffer is re-encoded to BGRA8 and the
  texture is marked sRGB, but the device texture is created with \<open>PF_G16\<close>, not with
  \<open>PF_B8G8R8A8\<close>. (RGBA16F behaves alike, with \<open>PF_FloatRGBA\<close>; the cases G8 and RGBA16
  of the same switch do look at \<open>bForUI\<close>.)
\<close>

theorem UI_request_G16_keeps_PF_G16:
  "bForUI (Example_Request ''gray16.png'' True) \<and>
   ImportFileAsImage (Example_Environment False GameTicks) ''gray16.png'' = (Example_Image G16, []) \<and>
   map (\<lambda>r. map_option
          (\<lambda>t. map_option (\<lambda>rhi. (RHI_Format rhi, RHI_SRGB rhi, RHI_Mip0Data rhi))
             (TextureReferenceRHI t)) (OutTexture r))
     (Results (BlockTillAllRequestsFinished (Example_Environment False GameTicks) True
        (Example_Reader [Example_Request ''gray16.png'' True]))) =
   [Some (Some (PF_G16, True, [9, 9, 9, 9, 9, 9, 9, 9]))]"
  by (simp add: BlockTillAllRequestsFinished.simps DequeueLoop.simps ProcessRequest_def Let_def
      ReadResult_update_def DefaultReadResult_def bForUI_def AsyncReallocateTexture_def
      NewRuntimeTextureResource_def Example_defs)



text \<open>
  C8, as stated, says that enqueuing signals the worker's wake event. \<open>AddRequest\<close> does
  not touch the event, and \<open>LoadImageSync\<close> enqueues its request without signalling it.
\<close>

theorem AddRequest_no_trigger_counterexample:
  "Requests (AddRequest (Example_Request ''photo.png'' False) (Example_Reader [])) =
     [Example_Request ''photo.png'' False] \<and>
   \<not> ThreadSemaphore (AddRequest (Example_Request ''photo.png'' False) (Example_Reader [])) \<and>
   map_sum id (\<lambda>(r, rd). (Result_ImageFilename r, ThreadSemaphore rd))
     (LoadImageSync_ReadResult (Example_Environment False GameTicks) True ''broken.png''
        \<lparr>Transform_bForUI = False, Transform_Other = 0\<rparr> (Example_Reader [])) =
     Inr (''broken.png'', False)"
  by (simp add: LoadImageSync_ReadResult_def GetResult_def AddRequest_def
      BlockTillAllRequestsFinished.simps DequeueLoop.simps ProcessRequest_def Let_def
      ReadResult_update_def DefaultReadResult_def bForUI_def Example_defs)

text \<open>
  C8, amended. \<open>AddRequest\<close> appends the request to the reader's queue and clears the
  completion flag; it returns (it is a total function of the reader) and leaves the wake
  event as it is. The event is signalled by \<open>Trigger\<close>, which the dispatch of \<open>Tick\<close> calls
  right after \<open>AddRequest\<close>.
\<close>

theorem AddRequest_enqueues:
  "Requests (AddRequest Request rd) = Requests rd @ [Request] \<and>
   \<not> bCompletedWork (AddRequest Request rd) \<and>
   Results (AddRequest Request rd) = Results rd \<and>
   ThreadSemaphore (AddRequest Request rd) = ThreadSemaphore rd \<and>
   ThreadSemaphore (Trigger (AddRequest Request rd)) \<and>
   Requests (ImageReader (Tick_Dispatch (s\<lparr>ActiveRequest := None, PendingRequests := Active # rest\<rparr>))) =
     Requests (ImageReader s) @ [Params Active] \<and>
   ThreadSemaphore (ImageReader (Tick_Dispatch (s\<lparr>ActiveRequest := None, PendingRequests := Active # rest\<rparr>)))"
  by (simp add: AddRequest_def Trigger_def Tick_Dispatch_cases)

section \<open>Claims about the loader\<close>




text \<open>
  C1. After any run of ticks, with the worker doing anything to the reader in between,
  the next \<open>Tick\<close> hands a request to the reader exactly when the slot is empty and the
  pending queue is not (it is the head of the queue, and it becomes the active request);
  it executes a delegate exactly when the slot is occupied after that and the reader
  reports its work completed (it is the active request's delegate, and the slot is
  cleared). Over the whole run the requests handed to the reader are a prefix of the
  pending queue, each handed over once and removed from the queue, and no request is
  handed over while another is in flight. (\<open>Tick\<close> itself is the case where the worker
  does nothing in between, by \<open>Tick_eq\<close>.)
\<close>

theorem Tick_single_in_flight:
  assumes "Ticks frames s = Inr t"
    and "Tick_interleaved w (Worker_acts ahead t) = Inr t'"
  shows "(\<exists>new. Events t' = Events t @ new \<and>
       Dispatched new =
         (if ActiveRequest t = None \<and> PendingRequests t \<noteq> []
          then [Params (hd (PendingRequests t))] else []) \<and>
       Executed new =
         (if ActiveRequest (Tick_Dispatch (Worker_acts ahead t)) \<noteq> None \<and>
             IsWorkCompleted (w (ImageReader (Tick_Dispatch (Worker_acts ahead t))))
          then [(OnRequestCompleted (the (ActiveRequest (Tick_Dispatch (Worker_acts ahead t)))),
                 last (Results (w (ImageReader (Tick_Dispatch (Worker_acts ahead t))))))]
          else []) \<and>
       ActiveRequest (Tick_Dispatch (Worker_acts ahead t)) =
         (if ActiveRequest t = None \<and> PendingRequests t \<noteq> []
          then Some (hd (PendingRequests t)) else ActiveRequest t) \<and>
       ActiveRequest t' =
         (if IsWorkCompleted (w (ImageReader (Tick_Dispatch (Worker_acts ahead t)))) then None
          else ActiveRequest (Tick_Dispatch (Worker_acts ahead t)))) \<and>
     Ticks (frames @ [(ahead, w)]) s = Inr t' \<and>
     (\<exists>new k. Events t' = Events s @ new \<and>
        Dispatched new = map Params (take k (PendingRequests s)) \<and>
        PendingRequests t' = drop k (PendingRequests s) \<and>
        single_in_flight (ActiveRequest s \<noteq> None) new = Some (ActiveRequest t' \<noteq> None))"
proof (intro conjI)
  from Tick_interleaved_step [OF assms(2)]
  show "\<exists>new. Events t' = Events t @ new \<and>
       Dispatched new =
         (if ActiveRequest t = None \<and> PendingRequests t \<noteq> []
          then [Params (hd (PendingRequests t))] else []) \<and>
       Executed new =
         (if ActiveRequest (Tick_Dispatch (Worker_acts ahead t)) \<noteq> None \<and>
             IsWorkCompleted (w (ImageReader (Tick_Dispatch (Worker_acts ahead t))))
          then [(OnRequestCompleted (the (ActiveRequest (Tick_Dispatch (Worker_acts ahead t)))),
                 last (Results (w (ImageReader (Tick_Dispatch (Worker_acts ahead t))))))]
          else []) \<and>
       ActiveRequest (Tick_Dispatch (Worker_acts ahead t)) =
         (if ActiveRequest t = None \<and> PendingRequests t \<noteq> []
          then Some (hd (PendingRequests t)) else ActiveRequest t) \<and>
       ActiveRequest t' =
         (if IsWorkCompleted (w (ImageReader (Tick_Dispatch (Worker_acts ahead t)))) then None
          else ActiveRequest (Tick_Dispatch (Worker_acts ahead t)))"
    by blast
next
  show run: "Ticks (frames @ [(ahead, w)]) s = Inr t'"
    using assms by (simp add: Ticks_append)
  from Ticks_run [OF run]
  show "\<exists>new k. Events t' = Events s @ new \<and>
        Dispatched new = map Params (take k (PendingRequests s)) \<and>
        PendingRequests t' = drop k (PendingRequests s) \<and>
        single_in_flight (ActiveRequest s \<noteq> None) new = Some (ActiveRequest t' \<noteq> None)" .
qed

theorem Tick_single_in_flight_witness:
  "Ticks [(id, id)] (Example_Loader [Example_LoadRequest ''broken.png'' 5] None (Example_Reader [])) =
     Inr Example_Dispatched \<and>
   Tick_interleaved id
     (Worker_acts (BlockTillAllRequestsFinished (Example_Environment False GameTicks) False)
        Example_Dispatched) = Inr Example_Delivered \<and>
   Ticks [(id, id), (BlockTillAllRequestsFinished (Example_Environment False GameTicks) False, id)]
     (Example_Loader [Example_LoadRequest ''broken.png'' 5] None (Example_Reader [])) =
     Inr Example_Delivered \<and>
   single_in_flight False (Events Example_Delivered) = Some False \<and>
   Dispatched (Events Example_Delivered) = [Example_Request ''broken.png'' False]"
  using Tick_single_in_flight [OF Example_Ticks_dispatch Example_Tick_deliver]
    Example_Ticks_dispatch Example_Tick_deliver
  by (simp add: Example_Delivered_def Example_loader_defs)

text \<open>
  C6. Where the platform is not Android, \<open>CancelAll\<close> on the game thread empties the
  pending queue, clears the active request, and empties the reader's queue and result
  buffer, without an event; whatever ticks follow, with the worker doing anything to the
  reader, succeed and add no event and change no output: no delegate is executed.
\<close>

theorem CancelAll_discards:
  assumes "\<not> PLATFORM_ANDROID E"
  shows "\<exists>s1. CancelAll E True s = Inr s1 \<and>
           PendingRequests s1 = [] \<and> ActiveRequest s1 = None \<and>
           Requests (ImageReader s1) = [] \<and> Results (ImageReader s1) = [] \<and>
           Events s1 = Events s \<and> Outputs s1 = Outputs s \<and>
           (\<exists>s'. Ticks frames s1 = Inr s' \<and> Events s' = Events s \<and> Outputs s' = Outputs s \<and>
                 ActiveRequest s' = None \<and> PendingRequests s' = [])"
proof -
  let ?s1 = "s\<lparr>PendingRequests := [], ActiveRequest := None, ImageReader := Clear (ImageReader s)\<rparr>"
  from assms have cancel: "CancelAll E True s = Inr ?s1"
    by (simp add: CancelAll_def)
  from Ticks_idle [of ?s1 frames] obtain rd where "Ticks frames ?s1 = Inr (?s1\<lparr>ImageReader := rd\<rparr>)"
    by auto
  then have "\<exists>s'. Ticks frames ?s1 = Inr s' \<and> Events s' = Events s \<and> Outputs s' = Outputs s \<and>
                 ActiveRequest s' = None \<and> PendingRequests s' = []"
    by simp
  with cancel show ?thesis by (simp add: Clear_def)
qed

theorem CancelAll_discards_witness:
  "\<not> PLATFORM_ANDROID (Example_Environment False GameTicks) \<and>
   CancelAll (Example_Environment False GameTicks) True Example_Busy =
     Inr (Example_Loader [] None ((Example_Reader [])\<lparr>ThreadSemaphore := True\<rparr>)) \<and>
   map_sum id (\<lambda>s. (Events s, ActiveRequest s, PendingRequests s))
     (Ticks [(BlockTillAllRequestsFinished (Example_Environment False GameTicks) False, id),
             (AddRequest (Example_Request ''broken.png'' False), id)]
        (Example_Loader [] None ((Example_Reader [])\<lparr>ThreadSemaphore := True\<rparr>))) =
     Inr ([], None, [])"
  using CancelAll_discards [of "Example_Environment False GameTicks" Example_Busy
      "[(BlockTillAllRequestsFinished (Example_Environment False GameTicks) False, id),
        (AddRequest (Example_Request ''broken.png'' False), id)]"]
  by (simp add: CancelAll_def Clear_def Example_Busy_def Example_defs Example_loader_defs)
     (auto simp: Example_defs Example_loader_defs)

text \<open>
  C9. On Android, \<open>CancelAll\<close> on the game thread logs the warning and changes nothing
  else: the pending queue, the active request and the reader are as before.
\<close>

theorem CancelAll_android_noop:
  assumes "PLATFORM_ANDROID E"
  shows "\<exists>s1. CancelAll E True s = Inr s1 \<and>
           PendingRequests s1 = PendingRequests s \<and> ActiveRequest s1 = ActiveRequest s \<and>
           ImageReader s1 = ImageReader s \<and> Outputs s1 = Outputs s \<and> Objects s1 = Objects s \<and>
           Events s1 = Events s @
             [LogWarning ''Cancelling http requests is not supported on Android platform!'']"
  using assms by (simp add: CancelAll_def)

theorem CancelAll_android_noop_witness:
  "PLATFORM_ANDROID (Example_Environment True GameTicks) \<and>
   CancelAll (Example_Environment True GameTicks) True Example_Busy =
     Inr (Example_Busy\<lparr>Events :=
       [LogWarning ''Cancelling http requests is not supported on Android platform!'']\<rparr>)"
  using CancelAll_android_noop [of "Example_Environment True GameTicks" Example_Busy]
  by (simp add: CancelAll_def Example_Busy_def Example_defs Example_loader_defs)

text \<open>
  C10. With a world context object that is null, gone or pending kill, \<open>LoadImageAsync\<close>
  and \<open>LoadHDRIAsync\<close> return the state as it was: nothing is enqueued, no output is
  written, no delegate is bound, so none is executed for the call.
\<close>

theorem Async_invalid_context_returns:
  assumes "\<not> IsValid s WorldContextObject"
  shows "LoadImageAsync Filename Transform Out LatentInfo WorldContextObject s = s \<and>
         LoadHDRIAsync E Filename Transform Out LatentInfo WorldContextObject s = s"
  using assms by (simp add: LoadImageAsync_def LoadHDRIAsync_def)

theorem Async_invalid_context_returns_witness:
  "\<not> IsValid Example_Busy None \<and> \<not> IsValid Example_Busy (Some 2) \<and>
   \<not> IsValid Example_Busy (Some 3) \<and>
   LoadImageAsync ''photo.png'' \<lparr>Transform_bForUI = True, Transform_Other = 0\<rparr> 7
     Example_LatentInfo None Example_Busy = Example_Busy \<and>
   LoadHDRIAsync (Example_Environment True GameTicks) ''sky.hdr''
     \<lparr>Transform_bForUI = False, Transform_Other = 0\<rparr> 7
     Example_LatentInfo (Some 2) Example_Busy = Example_Busy"
proof -
  have null: "\<not> IsValid Example_Busy None" and killed: "\<not> IsValid Example_Busy (Some 2)"
    and gone: "\<not> IsValid Example_Busy (Some 3)"
    by (simp_all add: IsValid_def Example_Busy_def Example_loader_defs)
  from Async_invalid_context_returns [OF null] Async_invalid_context_returns [OF killed]
    null killed gone
  show ?thesis by simp
qed

end
